theory Spec2Isabelle
  imports Complex_Main
begin

section \<open>Numbers, rounding and strings\<close>

text \<open>
  Amounts and percentages are Python floats in the source. They are modelled as real
  numbers with exact arithmetic: \<open>round(x, 2)\<close> is round-half-to-even on the
  exact value, \<open>math.ceil\<close> and \<open>math.floor\<close> are the ceiling and floor.
  Infinities and NaN are outside the model.
\<close>

definition round_half_even :: "real \<Rightarrow> int" where
  "round_half_even x =
     (let f = \<lfloor>x\<rfloor>; d = x - of_int f
      in if d < 1 / 2 then f
         else if 1 / 2 < d then f + 1
         else if even f then f else f + 1)"

definition py_round2 :: "real \<Rightarrow> real" where
  "py_round2 x = of_int (round_half_even (x * 100)) / 100"

text \<open>\<open>FeeCalculator._apply_rounding\<close>\<close>

definition apply_rounding :: "real \<Rightarrow> string \<Rightarrow> real" where
  "apply_rounding amount rule =
     (if rule = ''banker'' then py_round2 amount
      else if rule = ''up'' then of_int \<lceil>amount * 100\<rceil> / 100
      else if rule = ''down'' then of_int \<lfloor>amount * 100\<rfloor> / 100
      else py_round2 amount)"

text \<open>\<open>str.lower\<close> and \<open>str.upper\<close> on ASCII text.\<close>

definition lower_chr :: "char \<Rightarrow> char" where
  "lower_chr c =
     (case map_of (zip ''ABCDEFGHIJKLMNOPQRSTUVWXYZ'' ''abcdefghijklmnopqrstuvwxyz'') c of
        Some d \<Rightarrow> d | None \<Rightarrow> c)"

definition upper_chr :: "char \<Rightarrow> char" where
  "upper_chr c =
     (case map_of (zip ''abcdefghijklmnopqrstuvwxyz'' ''ABCDEFGHIJKLMNOPQRSTUVWXYZ'') c of
        Some d \<Rightarrow> d | None \<Rightarrow> c)"

definition lower :: "string \<Rightarrow> string" where
  "lower s = map lower_chr s"

definition upper :: "string \<Rightarrow> string" where
  "upper s = map upper_chr s"

section \<open>The fee engine (\<open>FeeCalculator\<close>)\<close>

datatype error =
    ConversionError
  | ZeroDivisionError
  | AmbiguousInvestor string "string list" bool
  | AmbiguousSimilar string "string list"
  | InvestorNotFound string
  | CompanyNotFound string
  | ImportError
  | KeyError string
  | NotInList string
  | ReError string

record fee_structure =
  upfront_fee_pct :: real
  amc_1_3_pct :: real
  amc_4_5_pct :: real
  performance_fee_pct :: real
  minimum_investment :: real
  maximum_investment :: real
  fee_cap :: "real option"
  fee_floor :: real
  rounding_rule :: string
  vat_rate :: "real option"
  currency :: string

definition DEFAULT_FEE_STRUCTURE :: fee_structure where
  "DEFAULT_FEE_STRUCTURE =
     \<lparr>upfront_fee_pct = 3 / 2, amc_1_3_pct = 2, amc_4_5_pct = 3 / 2,
      performance_fee_pct = 10, minimum_investment = 1000, maximum_investment = 1000000,
      fee_cap = None, fee_floor = 0, rounding_rule = ''banker'', vat_rate = Some 20,
      currency = ''GBP''\<rparr>"

text \<open>
  The lines of \<open>steps\<close> are f-strings over the amounts named here; a step keeps the
  interpolated values in the order they appear in the text.
\<close>

datatype calc_step =
    Retail_AMC_base real real real
  | Professional_AMC_base real
  | Upfront_fee_line real real real real
  | AMC_1_3_line real real real real
  | AMC_4_5_line real real real real
  | Net_amount_line real
  | Derived_gross_line real real

record breakdown_dict =
  base_investment :: real
  investor_type :: string
  applied_rates :: "(string \<times> real) list"
  fee_breakdown :: "(string \<times> real) list"
  total_amount_required :: real
  total_amount_provided :: "real option"

record audit_trail_dict =
  input_amount :: real
  investment_type :: string
  fee_structure_applied :: fee_structure
  calculation_steps :: "calc_step list"
  rounding_applied :: string
  timestamp :: string

record FeeCalculationResult =
  gross_investment :: real
  net_investment :: real
  upfront_fee :: real
  amc_1_3_fee :: real
  amc_4_5_fee :: real
  performance_fee :: real
  total_fees :: real
  total_transfer :: real
  calculation_method :: string
  breakdown :: breakdown_dict
  audit_trail :: audit_trail_dict
  reconciliation :: "(string \<times> real) list"
  calc_hash :: string
  timestamp :: string

text \<open>
  The dict returned by the two \<open>_calculate_enhanced_*\<close> functions; its key
  \<open>'method'\<close> is the field \<open>method_tag\<close>.
\<close>

record calc_dict =
  gross_investment :: real
  net_investment :: real
  upfront_fee :: real
  amc_1_3_fee :: real
  amc_4_5_fee :: real
  performance_fee :: real
  total_fees :: real
  total_transfer :: real
  method_tag :: string
  steps :: "calc_step list"
  breakdown :: breakdown_dict

text \<open>\<open>FeeCalculator._calculate_enhanced_gross_investment\<close>\<close>

definition calculate_enhanced_gross_investment ::
  "real \<Rightarrow> fee_structure \<Rightarrow> string \<Rightarrow> calc_dict" where
  "calculate_enhanced_gross_investment gross_amount fs inv_type =
     (let rr = rounding_rule fs;
          vat_rate_pct = (case vat_rate fs of None \<Rightarrow> 0 | Some v \<Rightarrow> v);
          upfront_pct = upfront_fee_pct fs / 100;
          amc1_3_pct_per_year = amc_1_3_pct fs / 100;
          amc1_3_pct_total = amc1_3_pct_per_year * 3;
          amc4_5_pct_per_year = amc_4_5_pct fs / 100;
          amc4_5_pct_total = amc4_5_pct_per_year * 2;
          upfront_ex = apply_rounding (gross_amount * upfront_pct) rr;
          upfront_vat = apply_rounding (upfront_ex * (vat_rate_pct / 100)) rr;
          upfront_tot = apply_rounding (upfront_ex + upfront_vat) rr;
          amc_base = (if inv_type = ''retail''
                      then apply_rounding (gross_amount - upfront_tot) rr
                      else gross_amount);
          steps0 = (if inv_type = ''retail''
                    then [Retail_AMC_base gross_amount upfront_tot amc_base]
                    else [Professional_AMC_base amc_base]);
          amc1_3_ex = apply_rounding (amc_base * amc1_3_pct_total) rr;
          amc1_3_vat = apply_rounding (amc1_3_ex * (vat_rate_pct / 100)) rr;
          amc1_3_tot = apply_rounding (amc1_3_ex + amc1_3_vat) rr;
          amc4_5_ex = apply_rounding (amc_base * amc4_5_pct_total) rr;
          amc4_5_vat = apply_rounding (amc4_5_ex * (vat_rate_pct / 100)) rr;
          amc4_5_tot = apply_rounding (amc4_5_ex + amc4_5_vat) rr;
          performance = 0;
          steps1 = steps0 @
            [Upfront_fee_line gross_amount (upfront_fee_pct fs) upfront_ex upfront_vat,
             AMC_1_3_line amc_base (amc_1_3_pct fs) amc1_3_ex amc1_3_vat,
             AMC_4_5_line amc_base (amc_4_5_pct fs) amc4_5_ex amc4_5_vat];
          immediate_fees_total = apply_rounding (upfront_tot + amc1_3_tot) rr;
          total = apply_rounding (gross_amount + immediate_fees_total) rr
      in \<lparr>gross_investment = gross_amount,
          net_investment = gross_amount,
          upfront_fee = upfront_ex,
          amc_1_3_fee = amc1_3_ex,
          amc_4_5_fee = amc4_5_ex,
          performance_fee = performance,
          total_fees = immediate_fees_total,
          total_transfer = total,
          method_tag = ''gross_enhanced'',
          steps = steps1,
          breakdown =
            \<lparr>base_investment = gross_amount,
             investor_type = inv_type,
             applied_rates =
               [(''upfront_pct'', upfront_fee_pct fs),
                (''amc_1_3_pct'', amc_1_3_pct fs),
                (''amc_4_5_pct'', amc_4_5_pct fs),
                (''vat_rate_pct'', vat_rate_pct),
                (''amc_base'', amc_base)],
             fee_breakdown =
               [(''upfront'', upfront_ex),
                (''upfront_ex_vat'', upfront_ex),
                (''upfront_vat'', upfront_vat),
                (''upfront_total'', upfront_tot),
                (''amc_1_3'', amc1_3_ex),
                (''amc_1_3_ex_vat'', amc1_3_ex),
                (''amc_1_3_vat'', amc1_3_vat),
                (''amc_1_3_total'', amc1_3_tot),
                (''amc_4_5'', amc4_5_ex),
                (''amc_4_5_ex_vat'', amc4_5_ex),
                (''amc_4_5_vat'', amc4_5_vat),
                (''amc_4_5_total'', amc4_5_tot),
                (''performance'', performance)],
             total_amount_required = total,
             total_amount_provided = None\<rparr>\<rparr>)"

text \<open>
  The multiplier of \<open>_calculate_enhanced_net_investment\<close>: \<open>u\<close> and \<open>a\<close> are
  the upfront and three-year AMC fractions, \<open>t\<close> is one plus the VAT fraction.
\<close>

definition net_multiplier :: "fee_structure \<Rightarrow> string \<Rightarrow> real" where
  "net_multiplier fs inv_type =
     (let vat_rate_pct = (case vat_rate fs of None \<Rightarrow> 0 | Some v \<Rightarrow> v);
          t = 1 + vat_rate_pct / 100;
          upfront_pct = upfront_fee_pct fs / 100;
          amc1_3_pct_total = amc_1_3_pct fs * 3 / 100
      in if inv_type = ''retail''
         then 1 + upfront_pct * t + amc1_3_pct_total * t
                - upfront_pct * amc1_3_pct_total * t\<^sup>2
         else 1 + t * (upfront_pct + amc1_3_pct_total))"

text \<open>
  \<open>FeeCalculator._calculate_enhanced_net_investment\<close>. Python raises
  \<open>ZeroDivisionError\<close> on a float division by zero.
\<close>

definition calculate_enhanced_net_investment ::
  "real \<Rightarrow> fee_structure \<Rightarrow> string \<Rightarrow> error + calc_dict" where
  "calculate_enhanced_net_investment net_amount fs inv_type =
     (let rr = rounding_rule fs;
          multiplier = net_multiplier fs inv_type
      in if multiplier = 0 then Inl ZeroDivisionError
         else
           let gross = apply_rounding (net_amount / multiplier) rr;
               steps0 = [Net_amount_line net_amount, Derived_gross_line multiplier gross];
               gross_result = calculate_enhanced_gross_investment gross fs inv_type
           in Inr (gross_result
                \<lparr>total_transfer := apply_rounding net_amount rr,
                 method_tag := ''net_enhanced'',
                 steps := steps0 @ steps gross_result,
                 breakdown := (breakdown gross_result)
                    \<lparr>total_amount_provided := Some net_amount\<rparr>\<rparr>))"

text \<open>\<open>FeeCalculator._create_reconciliation\<close>\<close>

definition create_reconciliation :: "calc_dict \<Rightarrow> bool \<Rightarrow> (string \<times> real) list" where
  "create_reconciliation result is_net =
     (if is_net
      then (let check_sum = total_transfer result - total_fees result
            in [(''total_provided'', total_transfer result),
                (''fees_deducted'', total_fees result),
                (''investment_amount'', gross_investment result),
                (''check_sum'', check_sum),
                (''variance'', \<bar>check_sum - gross_investment result\<bar>)])
      else (let check_sum = gross_investment result + total_fees result
            in [(''investment_amount'', gross_investment result),
                (''fees_added'', total_fees result),
                (''total_required'', total_transfer result),
                (''check_sum'', check_sum),
                (''variance'', \<bar>check_sum - total_transfer result\<bar>)]))"

text \<open>
  A value of \<open>company_data\<close> is given by what \<open>float()\<close> makes of it: its float,
  or the \<open>ValueError\<close>/\<open>TypeError\<close> of a value that does not convert. A field is
  \<open>None\<close> when the key is absent or holds \<open>None\<close>.
\<close>

datatype pyval = Float real | Unconvertible

record company_data =
  Upfront_Fee :: "pyval option"
  AMC_1_3 :: "pyval option"
  AMC_4_5 :: "pyval option"
  Perf_Fee :: "pyval option"
  vat_rate_override :: "pyval option"

definition override :: "pyval option \<Rightarrow> real \<Rightarrow> error + real" where
  "override cell dflt =
     (case cell of None \<Rightarrow> Inr dflt
      | Some (Float x) \<Rightarrow> Inr x
      | Some Unconvertible \<Rightarrow> Inl ConversionError)"

text \<open>
  \<open>FeeCalculator._get_enhanced_fee_structure\<close>: the four fee fields in the order of
  \<open>field_mapping\<close>; a VAT override that does not convert is swallowed by the
  \<open>try\<close>/\<open>except\<close>.
\<close>

definition get_enhanced_fee_structure :: "company_data option \<Rightarrow> error + fee_structure" where
  "get_enhanced_fee_structure cdata =
     (case cdata of
        None \<Rightarrow> Inr DEFAULT_FEE_STRUCTURE
      | Some cd \<Rightarrow>
          (case override (Upfront_Fee cd) (upfront_fee_pct DEFAULT_FEE_STRUCTURE) of
             Inl e \<Rightarrow> Inl e
           | Inr u \<Rightarrow>
          (case override (AMC_1_3 cd) (amc_1_3_pct DEFAULT_FEE_STRUCTURE) of
             Inl e \<Rightarrow> Inl e
           | Inr a13 \<Rightarrow>
          (case override (AMC_4_5 cd) (amc_4_5_pct DEFAULT_FEE_STRUCTURE) of
             Inl e \<Rightarrow> Inl e
           | Inr a45 \<Rightarrow>
          (case override (Perf_Fee cd) (performance_fee_pct DEFAULT_FEE_STRUCTURE) of
             Inl e \<Rightarrow> Inl e
           | Inr p \<Rightarrow>
              Inr (DEFAULT_FEE_STRUCTURE
                \<lparr>upfront_fee_pct := u, amc_1_3_pct := a13, amc_4_5_pct := a45,
                 performance_fee_pct := p,
                 vat_rate := (case vat_rate_override cd of
                                Some (Float v) \<Rightarrow> Some v
                              | _ \<Rightarrow> vat_rate DEFAULT_FEE_STRUCTURE)\<rparr>))))))"

text \<open>
  The keys of \<open>investor_data\<close> that the engine reads, each the string held under the
  key, or \<open>None\<close> when the key is absent or holds \<open>None\<close>.
\<close>

record investor_data =
  investor_type :: "string option"
  classification :: "string option"
  tier :: "string option"

text \<open>\<open>FeeCalculator._apply_enhanced_investor_adjustments\<close>\<close>

definition apply_enhanced_investor_adjustments ::
  "fee_structure \<Rightarrow> investor_data option \<Rightarrow> fee_structure" where
  "apply_enhanced_investor_adjustments fs idata =
     (case idata of
        None \<Rightarrow> fs
      | Some d \<Rightarrow>
          (case tier d of
             None \<Rightarrow> fs
           | Some tr \<Rightarrow>
               if upper tr = ''PREMIUM''
               then fs\<lparr>upfront_fee_pct := upfront_fee_pct fs * (8 / 10),
                       amc_1_3_pct := amc_1_3_pct fs * (9 / 10)\<rparr>
               else if upper tr = ''VIP''
               then fs\<lparr>upfront_fee_pct := upfront_fee_pct fs * (5 / 10),
                       amc_1_3_pct := amc_1_3_pct fs * (8 / 10)\<rparr>
               else fs))"

text \<open>
  Lines 258 to 265 of \<open>calc_breakdown\<close>: Python's \<open>x or y\<close> is \<open>x\<close> when
  \<open>x\<close> is truthy (here: a non-empty string) and \<open>y\<close> otherwise.
\<close>

definition py_or :: "string option \<Rightarrow> string \<Rightarrow> string" where
  "py_or v other = (case v of None \<Rightarrow> other | Some s \<Rightarrow> if s = [] then other else s)"

definition type_field :: "investor_data \<Rightarrow> string" where
  "type_field d = py_or (investor_data.investor_type d) (py_or (classification d) [])"

definition resolve_investor_type :: "investor_data option \<Rightarrow> string" where
  "resolve_investor_type idata =
     (let it = (case idata of None \<Rightarrow> [] | Some d \<Rightarrow> lower (type_field d))
      in if it \<noteq> ''retail'' \<and> it \<noteq> ''professional'' then ''professional'' else it)"

text \<open>
  \<open>FeeCalculator.calc_breakdown\<close>. The clock reading \<open>now\<close> stands for
  \<open>datetime.now().isoformat()\<close>, and \<open>md5_8\<close> for the first eight hex digits of
  the MD5 of the text made of the amount, the direction and the JSON of the adjusted
  structure.
\<close>

definition calc_breakdown ::
  "(real \<times> bool \<times> fee_structure \<Rightarrow> string) \<Rightarrow> string \<Rightarrow>
   real \<Rightarrow> bool \<Rightarrow> company_data option \<Rightarrow> investor_data option \<Rightarrow>
   error + FeeCalculationResult" where
  "calc_breakdown md5_8 now investment_amount is_net_investment cdata idata =
     (case get_enhanced_fee_structure cdata of
        Inl e \<Rightarrow> Inl e
      | Inr structure \<Rightarrow>
          let adjusted = apply_enhanced_investor_adjustments structure idata;
              inv_type = resolve_investor_type idata
          in (case (if is_net_investment
                    then calculate_enhanced_net_investment investment_amount adjusted inv_type
                    else Inr (calculate_enhanced_gross_investment
                                investment_amount adjusted inv_type)) of
                Inl e \<Rightarrow> Inl e
              | Inr result \<Rightarrow>
                  Inr \<lparr>FeeCalculationResult.gross_investment = gross_investment result,
                       FeeCalculationResult.net_investment = net_investment result,
                       FeeCalculationResult.upfront_fee = upfront_fee result,
                       FeeCalculationResult.amc_1_3_fee = amc_1_3_fee result,
                       FeeCalculationResult.amc_4_5_fee = amc_4_5_fee result,
                       FeeCalculationResult.performance_fee = performance_fee result,
                       FeeCalculationResult.total_fees = total_fees result,
                       FeeCalculationResult.total_transfer = total_transfer result,
                       calculation_method = method_tag result,
                       FeeCalculationResult.breakdown = breakdown result,
                       audit_trail =
                         \<lparr>input_amount = investment_amount,
                          investment_type = (if is_net_investment then ''net'' else ''gross''),
                          fee_structure_applied = adjusted,
                          calculation_steps = steps result,
                          rounding_applied = rounding_rule adjusted,
                          audit_trail_dict.timestamp = now\<rparr>,
                       reconciliation = create_reconciliation result is_net_investment,
                       calc_hash = md5_8 (investment_amount, is_net_investment, adjusted),
                       FeeCalculationResult.timestamp = now\<rparr>))"

section \<open>Entity resolution (\<open>ExcelLocalThreeSheet\<close>)\<close>

subsection \<open>Strings\<close>

text \<open>
  The characters \<open>str.strip\<close>, \<open>str.split\<close> and the pattern \<open>\s\<close> take for
  whitespace, among the ASCII ones.
\<close>

definition is_space :: "char \<Rightarrow> bool" where
  "is_space c \<longleftrightarrow>
     c \<in> set [CHR 0x20, CHR 0x09, CHR 0x0A, CHR 0x0B, CHR 0x0C, CHR 0x0D,
               CHR 0x1C, CHR 0x1D, CHR 0x1E, CHR 0x1F]"

definition strip :: "string \<Rightarrow> string" where
  "strip s = rev (dropWhile is_space (rev (dropWhile is_space s)))"

text \<open>\<open>_compress\<close>: \<open>re.sub(r"[^a-z0-9]", "", str(x).lower())\<close>\<close>

definition compress :: "string \<Rightarrow> string" where
  "compress x = filter (\<lambda>c. c \<in> set ''abcdefghijklmnopqrstuvwxyz0123456789'') (lower x)"

fun starts_with :: "string \<Rightarrow> string \<Rightarrow> bool" where
  "starts_with s [] = True"
| "starts_with [] (p # ps) = False"
| "starts_with (c # cs) (p # ps) = (c = p \<and> starts_with cs ps)"

text \<open>
  \<open>str.contains\<close> with a pattern made of letters and digits only, where the search
  for the regular expression is the search for a substring.
\<close>

fun str_contains :: "string \<Rightarrow> string \<Rightarrow> bool" where
  "str_contains [] pat = (pat = [])"
| "str_contains (c # cs) pat = (starts_with (c # cs) pat \<or> str_contains cs pat)"

definition ends_with :: "string \<Rightarrow> string \<Rightarrow> bool" where
  "ends_with s suf = starts_with (rev s) (rev suf)"

text \<open>\<open>str.split()\<close>: the maximal runs of characters that are not whitespace.\<close>

fun split_acc :: "string \<Rightarrow> string \<Rightarrow> string list" where
  "split_acc cur [] = (if cur = [] then [] else [rev cur])"
| "split_acc cur (c # cs) =
     (if is_space c
      then (if cur = [] then split_acc [] cs else rev cur # split_acc [] cs)
      else split_acc (c # cur) cs)"

definition split_ws :: "string \<Rightarrow> string list" where
  "split_ws s = split_acc [] s"

text \<open>\<open>" ".join(parts)\<close>\<close>

fun join_sp :: "string list \<Rightarrow> string" where
  "join_sp [] = []"
| "join_sp [p] = p"
| "join_sp (p # q # ps) = p @ '' '' @ join_sp (q # ps)"

subsection \<open>The libraries\<close>

text \<open>
  The regular expressions of \<open>str.contains\<close> are compiled by Python's \<open>re\<close>: a
  pattern yields a search predicate, or none when it does not compile (\<open>re.error\<close>).
  The engine is a parameter of the model. \<open>literal_re\<close> is the engine on patterns
  without metacharacters, where searching is substring search; it is used in closed
  examples only, on such patterns.
\<close>

type_synonym re_engine = "string \<Rightarrow> (string \<Rightarrow> bool) option"

definition re_meta :: string where
  "re_meta = ''.^$*+?{}[]|()'' @ [CHR 0x5C]"

definition literal_re :: re_engine where
  "literal_re pat =
     (if filter (\<lambda>c. c \<in> set re_meta) pat = []
      then Some (\<lambda>s. str_contains s pat) else None)"

text \<open>
  \<open>rapidfuzz\<close>, when it is installed: \<open>process.extract\<close> with the scorer
  \<open>fuzz.ratio\<close> and \<open>limit=5\<close>, and \<open>process.extractOne\<close> with the scorer
  \<open>fuzz.WRatio\<close>; each hit is a choice with its score.
\<close>

record rapidfuzz =
  extract_ratio :: "string \<Rightarrow> string list \<Rightarrow> (string \<times> real) list"
  extractOne_WRatio :: "string \<Rightarrow> string list \<Rightarrow> (string \<times> real) option"

text \<open>A scorer that finds every choice dissimilar, for closed examples.\<close>

definition rf_dissimilar :: rapidfuzz where
  "rf_dissimilar =
     \<lparr>extract_ratio = (\<lambda>q choices. map (\<lambda>c. (c, 0)) (take 5 choices)),
      extractOne_WRatio = (\<lambda>q choices. case choices of [] \<Rightarrow> None | c # _ \<Rightarrow> Some (c, 0))\<rparr>"

subsection \<open>The three sheets\<close>

text \<open>
  A sheet is the list of its rows and the columns it has; a text cell is given as
  \<open>astype(str)\<close> renders it, a numeric or date cell as the number the code reads off
  it (none for a blank or unreadable cell).
\<close>

record investor_row =
  Custodian_Client_Ref :: string
  Account_Name :: string
  Salutation :: string
  First_Name :: string
  Last_Name :: string
  Contact_email :: string
  Login_Email :: string
  Full_name :: string \<comment> \<open>the column \<open>__full__\<close> of the constructor\<close>

record investor_sheet =
  inv_has_Contact_email :: bool
  inv_has_Custodian_Client_Ref :: bool
  inv_has_Account_Name :: bool
  inv_rows :: "investor_row list"

record fee_row =
  fee_Custodian_Client_Ref :: string
  Investor_name :: string
  Subscription_code :: string
  Fund :: string
  Gross_Net :: string
  CC_Set_up_fee :: "real option"
  CC_AMC :: "real option"
  CC_Carry :: "real option"
  deposit_dt :: "int option"
  Deposit_no :: "real option"

record fee_sheet =
  fee_has_Custodian_Client_Ref :: bool
  fee_has_Investor_name :: bool
  fee_has_Subscription_code :: bool
  fee_has_deposit_date :: bool
  fee_has_Deposit_no :: bool
  fee_rows :: "fee_row list"

record company_row =
  Company_Name :: string
  Current_Share_Price :: "real option"
  Share_Class :: string

record company_sheet =
  co_has_Company_Name :: bool
  co_rows :: "company_row list"

text \<open>\<open>m.iloc[0].to_dict()\<close> when \<open>m\<close> is not empty.\<close>

definition first_row :: "'a list \<Rightarrow> 'a option" where
  "first_row m = (case m of [] \<Rightarrow> None | r # _ \<Rightarrow> Some r)"

text \<open>\<open>self.inv.iloc[choices.index(name)]\<close>; \<open>list.index\<close> raises when the name is
  not among the choices.\<close>

definition row_at_choice :: "('a \<Rightarrow> string) \<Rightarrow> 'a list \<Rightarrow> string \<Rightarrow> error + 'a option" where
  "row_at_choice col rows name =
     (case filter (\<lambda>r. col r = name) rows of
        [] \<Rightarrow> Inl (NotInList name)
      | r # _ \<Rightarrow> Inr (Some r))"


subsection \<open>\<open>find_investor_row\<close>\<close>

text \<open>
  One round of the loop over the columns \<open>__full__\<close> and \<open>Account Name\<close>:
  \<open>Inr None\<close> stands for going on to the next column. \<open>import rapidfuzz\<close>
  raises when the library is not installed.
\<close>

definition fuzzy_investor_col ::
  "rapidfuzz option \<Rightarrow> string \<Rightarrow> (investor_row \<Rightarrow> string) \<Rightarrow> investor_row list \<Rightarrow>
   error + investor_row option" where
  "fuzzy_investor_col rf investor_query col rows =
     (if rows = [] then Inr None
      else case rf of
        None \<Rightarrow> Inl ImportError
      | Some lib \<Rightarrow>
          let high_matches =
                filter (\<lambda>m. 75 \<le> snd m) (extract_ratio lib investor_query (map col rows))
          in if 1 < length high_matches
             then Inl (AmbiguousSimilar investor_query (map fst high_matches))
             else case high_matches of
                    [] \<Rightarrow> Inr None
                  | hit # _ \<Rightarrow> row_at_choice col rows (fst hit))"

text \<open>
  The error \<open>AmbiguousInvestor q names more\<close> is the \<open>ValueError\<close> of the safety
  check: the query, the first five names, and whether the message ends in dots.
\<close>

definition find_investor_row ::
  "rapidfuzz option \<Rightarrow> investor_sheet \<Rightarrow> string \<Rightarrow> error + investor_row option" where
  "find_investor_row rf sheet investor_query =
     (let s = lower (strip investor_query);
          rows = inv_rows sheet
      in case (if CHR ''@'' \<in> set s \<and> inv_has_Contact_email sheet
               then filter (\<lambda>r. lower (Contact_email r) = s) rows else []) of
           r # _ \<Rightarrow> Inr (Some r)
         | [] \<Rightarrow>
      (case (if inv_has_Custodian_Client_Ref sheet
             then filter (\<lambda>r. lower (strip (Custodian_Client_Ref r)) = s) rows else []) of
           r # _ \<Rightarrow> Inr (Some r)
         | [] \<Rightarrow>
      (let s_comp = compress s
       in case filter (\<lambda>r. compress (Full_name r) = s_comp) rows of
            r # _ \<Rightarrow> Inr (Some r)
          | [] \<Rightarrow>
       (let m = filter (\<lambda>r. str_contains (compress (Full_name r)) s_comp) rows
        in if 1 < length m
           then Inl (AmbiguousInvestor investor_query (take 5 (map Full_name m)) (5 < length m))
           else case m of
                  r # _ \<Rightarrow> Inr (Some r)
                | [] \<Rightarrow>
                    (case fuzzy_investor_col rf investor_query Full_name rows of
                       Inl e \<Rightarrow> Inl e
                     | Inr (Some r) \<Rightarrow> Inr (Some r)
                     | Inr None \<Rightarrow>
                         if inv_has_Account_Name sheet
                         then fuzzy_investor_col rf investor_query Account_Name rows
                         else Inr None)))))"

subsection \<open>\<open>find_company_row\<close>\<close>

definition legal_suffixes :: "string list" where
  "legal_suffixes =
     ['' limited'', '' ltd.'', '' ltd'', '' plc'', '' llp'', '' inc.'', '' inc'',
      '' corp.'', '' corp'', '' co.'', '' company'']"

text \<open>\<open>_norm\<close>: the first suffix of the list that the name ends with is cut off.\<close>

definition norm_company :: "string \<Rightarrow> string" where
  "norm_company n =
     (let x = strip (lower n);
          x' = (case filter (ends_with x) legal_suffixes of
                  [] \<Rightarrow> x
                | suf # _ \<Rightarrow> take (length x - length suf) x)
      in join_sp (split_ws x'))"

text \<open>
  No tier of \<open>find_company_row\<close> counts its matches: each returns the first row of a
  non-empty match. The column \<open>__norm__\<close> that the function adds to the sheet is not
  part of the row returned here.
\<close>

definition find_company_row ::
  "re_engine \<Rightarrow> rapidfuzz option \<Rightarrow> company_sheet \<Rightarrow> string \<Rightarrow> error + company_row option"
  where
  "find_company_row re rf sheet company_query =
     (if \<not> co_has_Company_Name sheet then Inr None
      else
        let s = lower (strip company_query);
            rows = co_rows sheet
        in case filter (\<lambda>r. lower (strip (Company_Name r)) = s) rows of
             r # _ \<Rightarrow> Inr (Some r)
           | [] \<Rightarrow>
        (case re s of
           None \<Rightarrow> Inl (ReError s)
         | Some search \<Rightarrow>
        (case filter (\<lambda>r. search (lower (Company_Name r))) rows of
           r # _ \<Rightarrow> Inr (Some r)
         | [] \<Rightarrow>
        (let s_norm = norm_company company_query
         in case filter (\<lambda>r. norm_company (Company_Name r) = s_norm) rows of
              r # _ \<Rightarrow> Inr (Some r)
            | [] \<Rightarrow>
        (let s_comp = compress company_query
         in case filter (\<lambda>r. compress (Company_Name r) = s_comp) rows of
              r # _ \<Rightarrow> Inr (Some r)
            | [] \<Rightarrow>
        (case filter (\<lambda>r. str_contains (compress (Company_Name r)) s_comp) rows of
           r # _ \<Rightarrow> Inr (Some r)
         | [] \<Rightarrow>
        (case rf of
           None \<Rightarrow> Inr None
         | Some lib \<Rightarrow>
             (case extractOne_WRatio lib company_query (map Company_Name rows) of
                None \<Rightarrow> Inr None
              | Some hit \<Rightarrow>
                  if 75 \<le> snd hit then row_at_choice Company_Name rows (fst hit)
                  else Inr None))))))))"

subsection \<open>\<open>find_fee_row\<close>\<close>

text \<open>The line the fee lookup prints when the fuzzy scorer has a hit: name, hit, score.\<close>

datatype notice = Fuzzy_disabled string string real

text \<open>
  The name tiers of the fallback: compressed equality, compressed containment, the same
  two for the name with its words reversed, then both the first and the last word found
  in the lowercased name (two regular expressions).
\<close>

definition name_fallback :: "re_engine \<Rightarrow> fee_row list \<Rightarrow> string \<Rightarrow> error + fee_row list" where
  "name_fallback re rows full =
     (let target = compress full;
          d1 = filter (\<lambda>r. compress (Investor_name r) = target) rows;
          d2 = (if d1 = []
                then filter (\<lambda>r. str_contains (compress (Investor_name r)) target) rows
                else d1);
          parts = split_ws full;
          d3 = (if d2 = [] \<and> 2 \<le> length parts
                then (let rev_target = compress (join_sp (rev parts));
                          d = filter (\<lambda>r. compress (Investor_name r) = rev_target) rows
                      in if d = []
                         then filter (\<lambda>r. str_contains (compress (Investor_name r)) rev_target)
                                rows
                         else d)
                else d2)
      in if d3 = [] \<and> 2 \<le> length parts
         then (case re (lower (hd parts)) of
                 None \<Rightarrow> Inl (ReError (lower (hd parts)))
               | Some has_first \<Rightarrow>
                   (case re (lower (last parts)) of
                      None \<Rightarrow> Inl (ReError (lower (last parts)))
                    | Some has_last \<Rightarrow>
                        Inr (filter (\<lambda>r. has_first (lower (Investor_name r))
                                        \<and> has_last (lower (Investor_name r))) rows)))
         else Inr d3)"

text \<open>
  The order of \<open>sort_values\<close>, descending with missing values last, and the first row
  of the sorted frame: the first row no other row comes before.
\<close>

definition opt_gt :: "'a::linorder option \<Rightarrow> 'a option \<Rightarrow> bool" where
  "opt_gt x y =
     (case x of None \<Rightarrow> False
      | Some a \<Rightarrow> (case y of None \<Rightarrow> True | Some b \<Rightarrow> b < a))"

definition by_date_then_deposit :: "fee_row \<Rightarrow> fee_row \<Rightarrow> bool" where
  "by_date_then_deposit r1 r2 \<longleftrightarrow>
     opt_gt (deposit_dt r1) (deposit_dt r2)
     \<or> (deposit_dt r1 = deposit_dt r2 \<and> opt_gt (Deposit_no r1) (Deposit_no r2))"

definition by_deposit :: "fee_row \<Rightarrow> fee_row \<Rightarrow> bool" where
  "by_deposit r1 r2 \<longleftrightarrow> opt_gt (Deposit_no r1) (Deposit_no r2)"

fun pick_first :: "('a \<Rightarrow> 'a \<Rightarrow> bool) \<Rightarrow> 'a \<Rightarrow> 'a list \<Rightarrow> 'a" where
  "pick_first precedes best [] = best"
| "pick_first precedes best (r # rs) = pick_first precedes (if precedes r best then r else best) rs"

text \<open>
  \<open>find_fee_row\<close> returns the lines it printed and the row. The fuzzy hit is only
  printed.
\<close>

definition find_fee_row ::
  "re_engine \<Rightarrow> rapidfuzz option \<Rightarrow> fee_sheet \<Rightarrow> string \<Rightarrow> string option \<Rightarrow> string option \<Rightarrow>
   error + (notice list \<times> fee_row option)" where
  "find_fee_row re rf sheet cust_ref subscription_code investor_full_name =
     (if \<not> fee_has_Custodian_Client_Ref sheet then Inr ([], None)
      else
        let rhs = lower (strip cust_ref);
            rows = fee_rows sheet;
            df0 = filter (\<lambda>r. lower (strip (fee_Custodian_Client_Ref r)) = rhs) rows
        in case (case investor_full_name of
                   None \<Rightarrow> Inr ([], df0)
                 | Some name \<Rightarrow>
                     if df0 = [] \<and> name \<noteq> [] \<and> fee_has_Investor_name sheet
                     then (case name_fallback re rows (strip name) of
                             Inl e \<Rightarrow> Inl e
                           | Inr df \<Rightarrow>
                               Inr (if df = []
                                    then (case rf of
                                            None \<Rightarrow> []
                                          | Some lib \<Rightarrow>
                                              (case extractOne_WRatio lib (strip name)
                                                      (map Investor_name rows) of
                                                 None \<Rightarrow> []
                                               | Some hit \<Rightarrow>
                                                   [Fuzzy_disabled (strip name) (fst hit)
                                                      (snd hit)]))
                                    else [],
                                    df))
                     else Inr ([], df0)) of
             Inl e \<Rightarrow> Inl e
           | Inr (printed, df) \<Rightarrow>
               (case (case subscription_code of
                        None \<Rightarrow> df
                      | Some code \<Rightarrow>
                          if fee_has_Subscription_code sheet
                          then (let sub = filter (\<lambda>r. lower (strip (Subscription_code r))
                                                        = lower (strip code)) df
                                in if sub = [] then df else sub)
                          else df) of
                  [] \<Rightarrow> Inr (printed, None)
                | r # rs \<Rightarrow>
                    if fee_has_deposit_date sheet
                    then (if fee_has_Deposit_no sheet
                          then Inr (printed, Some (pick_first by_date_then_deposit r rs))
                          else Inl (KeyError ''Deposit #''))
                    else if fee_has_Deposit_no sheet
                    then Inr (printed, Some (pick_first by_deposit r rs))
                    else Inr (printed, Some r)))"


subsection \<open>\<open>resolve_payload\<close>\<close>







subsection \<open>Sheets for the examples\<close>




definition fee_alan_fox :: fee_row where
  "fee_alan_fox =
     \<lparr>fee_Custodian_Client_Ref = ''C001'', Investor_name = ''Alan Fox'',
      Subscription_code = ''AF-EIS-1'', Fund = ''Retail'', Gross_Net = ''Gross'',
      CC_Set_up_fee = Some (15 / 1000), CC_AMC = Some (2 / 100), CC_Carry = Some (20 / 100),
      deposit_dt = Some 19000, Deposit_no = Some 1\<rparr>"

definition fee_alan_hickford :: fee_row where
  "fee_alan_hickford =
     \<lparr>fee_Custodian_Client_Ref = ''C002'', Investor_name = ''Alan Hickford'',
      Subscription_code = ''AH-EIS-1'', Fund = ''Professional'', Gross_Net = ''Net'',
      CC_Set_up_fee = Some (1 / 100), CC_AMC = Some (2 / 100), CC_Carry = Some (20 / 100),
      deposit_dt = Some 19100, Deposit_no = Some 1\<rparr>"

definition two_alans_fees :: fee_sheet where
  "two_alans_fees =
     \<lparr>fee_has_Custodian_Client_Ref = True, fee_has_Investor_name = True,
      fee_has_Subscription_code = True, fee_has_deposit_date = True,
      fee_has_Deposit_no = True, fee_rows = [fee_alan_fox, fee_alan_hickford]\<rparr>"

definition acme_one :: company_row where
  "acme_one =
     \<lparr>Company_Name = ''Acme-Alpha One'', Current_Share_Price = Some 1,
      Share_Class = ''Ordinary''\<rparr>"

definition acme_two :: company_row where
  "acme_two =
     \<lparr>Company_Name = ''Acme-Alpha Two'', Current_Share_Price = Some 2,
      Share_Class = ''Ordinary''\<rparr>"

definition two_acmes :: company_sheet where
  "two_acmes = \<lparr>co_has_Company_Name = True, co_rows = [acme_one, acme_two]\<rparr>"

section \<open>Definitions used in the statements and proofs\<close>


text \<open>
  The VAT-inclusive total of a fee, as the gross calculation computes it three times:
  the fee rounded, its VAT rounded, their sum rounded.
\<close>

definition with_vat :: "real \<Rightarrow> real \<Rightarrow> string \<Rightarrow> real" where
  "with_vat x vf rr =
     (let ex = apply_rounding x rr; vat = apply_rounding (ex * vf) rr
      in apply_rounding (ex + vat) rr)"

text \<open>The VAT fraction and the AMC base the gross calculation works with.\<close>

definition vat_frac :: "fee_structure \<Rightarrow> real" where
  "vat_frac fs = (case vat_rate fs of None \<Rightarrow> 0 | Some v \<Rightarrow> v) / 100"

definition amc_base_of :: "real \<Rightarrow> fee_structure \<Rightarrow> string \<Rightarrow> real" where
  "amc_base_of g fs inv_type =
     (if inv_type = ''retail''
      then apply_rounding
             (g - with_vat (g * (upfront_fee_pct fs / 100)) (vat_frac fs) (rounding_rule fs))
             (rounding_rule fs)
      else g)"

text \<open>A stand-in for the hash function, for closed examples.\<close>

definition const_hash :: "real \<times> bool \<times> fee_structure \<Rightarrow> string" where
  "const_hash x = ''00000000''"

text \<open>The rows a fee lookup goes on with after the reference key and the name tiers.\<close>

definition fee_candidates ::
  "re_engine \<Rightarrow> fee_sheet \<Rightarrow> string \<Rightarrow> string option \<Rightarrow> error + fee_row list" where
  "fee_candidates re sheet cust_ref investor_full_name =
     (let rows = fee_rows sheet;
          df0 = filter (\<lambda>r. lower (strip (fee_Custodian_Client_Ref r))
                              = lower (strip cust_ref)) rows
      in case investor_full_name of
           None \<Rightarrow> Inr df0
         | Some name \<Rightarrow>
             if df0 = [] \<and> name \<noteq> [] \<and> fee_has_Investor_name sheet
             then name_fallback re rows (strip name)
             else Inr df0)"

text \<open>The row chosen among the candidates: narrowing by subscription code, then the sort.\<close>

definition fee_choice :: "fee_sheet \<Rightarrow> string option \<Rightarrow> fee_row list \<Rightarrow> error + fee_row option"
  where
  "fee_choice sheet subscription_code df =
     (case (case subscription_code of
              None \<Rightarrow> df
            | Some code \<Rightarrow>
                if fee_has_Subscription_code sheet
                then (let sub = filter (\<lambda>r. lower (strip (Subscription_code r))
                                              = lower (strip code)) df
                      in if sub = [] then df else sub)
                else df) of
        [] \<Rightarrow> Inr None
      | r # rs \<Rightarrow>
          if fee_has_deposit_date sheet
          then (if fee_has_Deposit_no sheet
                then Inr (Some (pick_first by_date_then_deposit r rs))
                else Inl (KeyError ''Deposit #''))
          else if fee_has_Deposit_no sheet
          then Inr (Some (pick_first by_deposit r rs))
          else Inr (Some r))"

section \<open>Rounding\<close>



lemma rhe_int: "round_half_even (of_int k) = k"
  unfolding round_half_even_def Let_def by simp

lemma py_round2_cents: "py_round2 (of_int k / 100) = of_int k / 100"
  unfolding py_round2_def by (simp add: rhe_int)


lemma apply_rounding_cents: "apply_rounding (of_int k / 100) rr = of_int k / 100"
  by (simp add: apply_rounding_def py_round2_cents)

lemma apply_rounding_is_cents: "\<exists>k::int. apply_rounding x rr = of_int k / 100"
  unfolding apply_rounding_def py_round2_def by auto

lemma apply_rounding_sum:
  "apply_rounding (apply_rounding x rr + apply_rounding y rr) rr
     = apply_rounding x rr + apply_rounding y rr"
proof -
  obtain k l :: int where k: "apply_rounding x rr = of_int k / 100"
    and l: "apply_rounding y rr = of_int l / 100"
    using apply_rounding_is_cents by blast
  have s: "of_int k / 100 + of_int l / 100 = (of_int (k + l) :: real) / 100" by simp
  show ?thesis
    unfolding k l s by (rule apply_rounding_cents)
qed




section \<open>Components of the gross-supplied calculation\<close>


lemma gross_upfront_total:
  "map_of (fee_breakdown (breakdown (calculate_enhanced_gross_investment g fs it)))
      ''upfront_total''
     = Some (with_vat (g * (upfront_fee_pct fs / 100)) (vat_frac fs) (rounding_rule fs))"
  by (simp add: calculate_enhanced_gross_investment_def Let_def with_vat_def vat_frac_def)

lemma gross_amc_base:
  "map_of (applied_rates (breakdown (calculate_enhanced_gross_investment g fs it))) ''amc_base''
     = Some (amc_base_of g fs it)"
  by (simp add: calculate_enhanced_gross_investment_def Let_def with_vat_def vat_frac_def
      amc_base_of_def)


lemma gross_amc_1_3_total:
  "map_of (fee_breakdown (breakdown (calculate_enhanced_gross_investment g fs it)))
      ''amc_1_3_total''
     = Some (with_vat (amc_base_of g fs it * (amc_1_3_pct fs / 100 * 3)) (vat_frac fs)
               (rounding_rule fs))"
  by (simp add: calculate_enhanced_gross_investment_def Let_def with_vat_def vat_frac_def
      amc_base_of_def)



lemma gross_total_fees:
  "total_fees (calculate_enhanced_gross_investment g fs it)
     = with_vat (g * (upfront_fee_pct fs / 100)) (vat_frac fs) (rounding_rule fs)
       + with_vat (amc_base_of g fs it * (amc_1_3_pct fs / 100 * 3)) (vat_frac fs)
           (rounding_rule fs)"
proof -
  have "total_fees (calculate_enhanced_gross_investment g fs it)
     = apply_rounding
         (with_vat (g * (upfront_fee_pct fs / 100)) (vat_frac fs) (rounding_rule fs)
          + with_vat (amc_base_of g fs it * (amc_1_3_pct fs / 100 * 3)) (vat_frac fs)
              (rounding_rule fs)) (rounding_rule fs)"
    by (simp add: calculate_enhanced_gross_investment_def Let_def with_vat_def vat_frac_def
        amc_base_of_def)
  also have "\<dots> = with_vat (g * (upfront_fee_pct fs / 100)) (vat_frac fs) (rounding_rule fs)
       + with_vat (amc_base_of g fs it * (amc_1_3_pct fs / 100 * 3)) (vat_frac fs)
           (rounding_rule fs)"
    unfolding with_vat_def Let_def by (rule apply_rounding_sum)
  finally show ?thesis .
qed

lemma gross_total_transfer:
  "total_transfer (calculate_enhanced_gross_investment g fs it)
     = apply_rounding (g + total_fees (calculate_enhanced_gross_investment g fs it))
         (rounding_rule fs)"
  by (simp add: calculate_enhanced_gross_investment_def Let_def)



section \<open>The gross-supplied scenario\<close>

text \<open>
  C6. For a gross amount of 50,000 with investor type professional, upfront 1.5%,
  AMC 1-3 of 2% per year and VAT 20%, the gross-supplied calculation gives
  upfront_ex_vat 750, upfront_total 900, amc_1_3_ex_vat 3000, amc_1_3_total 3600,
  total_fees 4500 and total_transfer 54500, whatever the AMC 4-5 rate is; total_fees is
  upfront_total plus amc_1_3_total and total_transfer is the amount plus total_fees.
\<close>

theorem C6_gross_professional_scenario:
  "map_of (fee_breakdown (breakdown (calculate_enhanced_gross_investment 50000
      (DEFAULT_FEE_STRUCTURE\<lparr>amc_4_5_pct := x\<rparr>) ''professional''))) ''upfront_ex_vat''
     = Some 750
   \<and> map_of (fee_breakdown (breakdown (calculate_enhanced_gross_investment 50000
      (DEFAULT_FEE_STRUCTURE\<lparr>amc_4_5_pct := x\<rparr>) ''professional''))) ''upfront_total''
     = Some 900
   \<and> map_of (fee_breakdown (breakdown (calculate_enhanced_gross_investment 50000
      (DEFAULT_FEE_STRUCTURE\<lparr>amc_4_5_pct := x\<rparr>) ''professional''))) ''amc_1_3_ex_vat''
     = Some 3000
   \<and> map_of (fee_breakdown (breakdown (calculate_enhanced_gross_investment 50000
      (DEFAULT_FEE_STRUCTURE\<lparr>amc_4_5_pct := x\<rparr>) ''professional''))) ''amc_1_3_total''
     = Some 3600
   \<and> total_fees (calculate_enhanced_gross_investment 50000
      (DEFAULT_FEE_STRUCTURE\<lparr>amc_4_5_pct := x\<rparr>) ''professional'') = 4500
   \<and> total_transfer (calculate_enhanced_gross_investment 50000
      (DEFAULT_FEE_STRUCTURE\<lparr>amc_4_5_pct := x\<rparr>) ''professional'') = 54500
   \<and> total_fees (calculate_enhanced_gross_investment 50000
      (DEFAULT_FEE_STRUCTURE\<lparr>amc_4_5_pct := x\<rparr>) ''professional'') = 900 + 3600
   \<and> total_transfer (calculate_enhanced_gross_investment 50000
      (DEFAULT_FEE_STRUCTURE\<lparr>amc_4_5_pct := x\<rparr>) ''professional'')
       = 50000 + total_fees (calculate_enhanced_gross_investment 50000
      (DEFAULT_FEE_STRUCTURE\<lparr>amc_4_5_pct := x\<rparr>) ''professional'')"
proof -
  have u: "with_vat (50000 * (upfront_fee_pct (DEFAULT_FEE_STRUCTURE\<lparr>amc_4_5_pct := x\<rparr>) / 100))
      (vat_frac (DEFAULT_FEE_STRUCTURE\<lparr>amc_4_5_pct := x\<rparr>))
      (rounding_rule (DEFAULT_FEE_STRUCTURE\<lparr>amc_4_5_pct := x\<rparr>)) = 900"
    by (simp add: DEFAULT_FEE_STRUCTURE_def vat_frac_def with_vat_def Let_def
        apply_rounding_def py_round2_def round_half_even_def)
  have a: "with_vat (amc_base_of 50000 (DEFAULT_FEE_STRUCTURE\<lparr>amc_4_5_pct := x\<rparr>)
        ''professional''
        * (amc_1_3_pct (DEFAULT_FEE_STRUCTURE\<lparr>amc_4_5_pct := x\<rparr>) / 100 * 3))
      (vat_frac (DEFAULT_FEE_STRUCTURE\<lparr>amc_4_5_pct := x\<rparr>))
      (rounding_rule (DEFAULT_FEE_STRUCTURE\<lparr>amc_4_5_pct := x\<rparr>)) = 3600"
    by (simp add: DEFAULT_FEE_STRUCTURE_def vat_frac_def with_vat_def Let_def amc_base_of_def
        apply_rounding_def py_round2_def round_half_even_def)
  have ex: "map_of (fee_breakdown (breakdown (calculate_enhanced_gross_investment 50000
      (DEFAULT_FEE_STRUCTURE\<lparr>amc_4_5_pct := x\<rparr>) ''professional''))) ''upfront_ex_vat''
     = Some 750"
    "map_of (fee_breakdown (breakdown (calculate_enhanced_gross_investment 50000
      (DEFAULT_FEE_STRUCTURE\<lparr>amc_4_5_pct := x\<rparr>) ''professional''))) ''amc_1_3_ex_vat''
     = Some 3000"
    by (simp_all add: calculate_enhanced_gross_investment_def DEFAULT_FEE_STRUCTURE_def Let_def
        apply_rounding_def py_round2_def round_half_even_def)
  have tf: "total_fees (calculate_enhanced_gross_investment 50000
      (DEFAULT_FEE_STRUCTURE\<lparr>amc_4_5_pct := x\<rparr>) ''professional'') = 4500"
    unfolding gross_total_fees u a by simp
  have tt: "total_transfer (calculate_enhanced_gross_investment 50000
      (DEFAULT_FEE_STRUCTURE\<lparr>amc_4_5_pct := x\<rparr>) ''professional'') = 54500"
    unfolding gross_total_transfer tf
    by (simp add: DEFAULT_FEE_STRUCTURE_def apply_rounding_def py_round2_def
        round_half_even_def)
  show ?thesis
    unfolding gross_upfront_total gross_amc_1_3_total u a ex tf tt by simp
qed

section \<open>The net-supplied direction inverts the gross-supplied one\<close>

lemma gross_gross_investment:
  "gross_investment (calculate_enhanced_gross_investment g fs it) = g"
  by (simp add: calculate_enhanced_gross_investment_def Let_def)









section \<open>Retail and professional AMC base\<close>




section \<open>VAT scaling\<close>









section \<open>The entry point \<open>calc_breakdown\<close>\<close>

lemma resolve_investor_type_cases:
  "resolve_investor_type idata
     = (if (case idata of None \<Rightarrow> False | Some d \<Rightarrow> lower (type_field d) = ''retail'')
        then ''retail'' else ''professional'')"
  by (auto simp: resolve_investor_type_def Let_def lower_def split: option.splits)

lemma gross_breakdown_type:
  "breakdown_dict.investor_type (breakdown (calculate_enhanced_gross_investment g fs it)) = it"
  by (simp add: calculate_enhanced_gross_investment_def Let_def)

lemma net_Inr_iff:
  "(\<exists>r. calculate_enhanced_net_investment n fs it = Inr r) \<longleftrightarrow> net_multiplier fs it \<noteq> 0"
  by (simp add: calculate_enhanced_net_investment_def Let_def)

lemma net_result:
  assumes "calculate_enhanced_net_investment n fs it = Inr r"
  shows "gross_investment r = apply_rounding (n / net_multiplier fs it) (rounding_rule fs)"
    and "breakdown_dict.investor_type (breakdown r) = it"
    and "map_of (applied_rates (breakdown r)) ''amc_base''
           = Some (amc_base_of (gross_investment r) fs it)"
    and "map_of (fee_breakdown (breakdown r)) ''upfront_total''
           = Some (with_vat (gross_investment r * (upfront_fee_pct fs / 100)) (vat_frac fs)
                     (rounding_rule fs))"
  using assms
  by (auto simp: calculate_enhanced_net_investment_def Let_def gross_gross_investment
      gross_breakdown_type gross_amc_base gross_upfront_total split: if_splits)




lemma calc_breakdown_gross:
  assumes "get_enhanced_fee_structure cdata = Inr fs"
  shows "\<exists>r. calc_breakdown h now amt False cdata idata = Inr r
     \<and> FeeCalculationResult.gross_investment r = amt
     \<and> FeeCalculationResult.timestamp r = now
     \<and> fee_structure_applied (audit_trail r) = apply_enhanced_investor_adjustments fs idata
     \<and> FeeCalculationResult.breakdown r
         = breakdown (calculate_enhanced_gross_investment amt
             (apply_enhanced_investor_adjustments fs idata) (resolve_investor_type idata))"
  using assms by (simp add: calc_breakdown_def Let_def gross_gross_investment)

lemma calc_breakdown_net:
  assumes "get_enhanced_fee_structure cdata = Inr fs"
    and "calculate_enhanced_net_investment amt (apply_enhanced_investor_adjustments fs idata)
           (resolve_investor_type idata) = Inr res"
  shows "\<exists>r. calc_breakdown h now amt True cdata idata = Inr r
     \<and> FeeCalculationResult.gross_investment r = gross_investment res
     \<and> FeeCalculationResult.timestamp r = now
     \<and> fee_structure_applied (audit_trail r) = apply_enhanced_investor_adjustments fs idata
     \<and> FeeCalculationResult.breakdown r = breakdown res"
  using assms by (simp add: calc_breakdown_def Let_def)


lemma calc_breakdown_Inr_cases:
  assumes "calc_breakdown h now amt is_net cdata idata = Inr r"
  obtains fs res where
    "get_enhanced_fee_structure cdata = Inr fs"
    "(if is_net
      then calculate_enhanced_net_investment amt (apply_enhanced_investor_adjustments fs idata)
             (resolve_investor_type idata)
      else Inr (calculate_enhanced_gross_investment amt
             (apply_enhanced_investor_adjustments fs idata) (resolve_investor_type idata)))
       = Inr res"
    "FeeCalculationResult.gross_investment r = gross_investment res"
    "FeeCalculationResult.breakdown r = breakdown res"
    "fee_structure_applied (audit_trail r) = apply_enhanced_investor_adjustments fs idata"
proof (cases "get_enhanced_fee_structure cdata")
  case (Inl e)
  with assms show ?thesis by (simp add: calc_breakdown_def)
next
  case (Inr fs)
  show ?thesis
  proof (cases is_net)
    case True
    show ?thesis
    proof (cases "calculate_enhanced_net_investment amt
        (apply_enhanced_investor_adjustments fs idata) (resolve_investor_type idata)")
      case (Inl e)
      with assms Inr True show ?thesis by (simp add: calc_breakdown_def Let_def)
    next
      case res: (Inr res)
      have "(if is_net
        then calculate_enhanced_net_investment amt (apply_enhanced_investor_adjustments fs idata)
               (resolve_investor_type idata)
        else Inr (calculate_enhanced_gross_investment amt
               (apply_enhanced_investor_adjustments fs idata) (resolve_investor_type idata)))
         = Inr res"
        using True res by simp
      moreover from assms Inr True res
      have "FeeCalculationResult.gross_investment r = gross_investment res"
        "FeeCalculationResult.breakdown r = breakdown res"
        "fee_structure_applied (audit_trail r) = apply_enhanced_investor_adjustments fs idata"
        by (auto simp: calc_breakdown_def Let_def)
      ultimately show ?thesis using that [OF Inr] by blast
    qed
  next
    case False
    define res where "res = calculate_enhanced_gross_investment amt
               (apply_enhanced_investor_adjustments fs idata) (resolve_investor_type idata)"
    have "(if is_net
        then calculate_enhanced_net_investment amt (apply_enhanced_investor_adjustments fs idata)
               (resolve_investor_type idata)
        else Inr (calculate_enhanced_gross_investment amt
               (apply_enhanced_investor_adjustments fs idata) (resolve_investor_type idata)))
         = Inr res"
      using False by (simp add: res_def)
    moreover from assms Inr False
    have "FeeCalculationResult.gross_investment r = gross_investment res"
      "FeeCalculationResult.breakdown r = breakdown res"
      "fee_structure_applied (audit_trail r) = apply_enhanced_investor_adjustments fs idata"
      unfolding res_def by (auto simp: calc_breakdown_def Let_def)
    ultimately show ?thesis using that [OF Inr] by blast
  qed
qed

text \<open>
  C10. Whenever calc_breakdown returns, the investor type it worked with is retail exactly
  when investor_data is present and its investor_type field (or, when that is absent or
  empty, its classification field), lowercased, is the string retail; in every other
  case, an absent investor_data included, it is professional. Only in the retail case is
  the upfront total deducted from the AMC base, and only then does the net-supplied
  direction divide by the retail multiplier; otherwise the AMC base is the gross
  investment and the multiplier is the professional one.
\<close>

theorem C10_investor_type_default:
  assumes r: "calc_breakdown h now amt is_net cdata idata = Inr r"
    and fs: "fs = fee_structure_applied (audit_trail r)"
    and retail: "retail = (case idata of None \<Rightarrow> False
                           | Some d \<Rightarrow> lower (type_field d) = ''retail'')"
  shows "breakdown_dict.investor_type (FeeCalculationResult.breakdown r)
           = (if retail then ''retail'' else ''professional'')
    \<and> (\<not> retail \<longrightarrow>
          map_of (applied_rates (FeeCalculationResult.breakdown r)) ''amc_base''
            = Some (FeeCalculationResult.gross_investment r))
    \<and> (retail \<longrightarrow>
          (\<exists>ut. map_of (fee_breakdown (FeeCalculationResult.breakdown r)) ''upfront_total''
                  = Some ut
             \<and> map_of (applied_rates (FeeCalculationResult.breakdown r)) ''amc_base''
                  = Some (apply_rounding (FeeCalculationResult.gross_investment r - ut)
                            (rounding_rule fs))))
    \<and> (is_net \<longrightarrow>
          FeeCalculationResult.gross_investment r
            = apply_rounding
                (amt / net_multiplier fs (if retail then ''retail'' else ''professional''))
                (rounding_rule fs))"
proof -
  define it where "it = (if retail then ''retail'' else ''professional'')"
  have it: "resolve_investor_type idata = it"
    unfolding it_def retail by (rule resolve_investor_type_cases)
  obtain fs0 res where
    "get_enhanced_fee_structure cdata = Inr fs0"
    and res0: "(if is_net
      then calculate_enhanced_net_investment amt (apply_enhanced_investor_adjustments fs0 idata)
             (resolve_investor_type idata)
      else Inr (calculate_enhanced_gross_investment amt
             (apply_enhanced_investor_adjustments fs0 idata) (resolve_investor_type idata)))
       = Inr res"
    and g: "FeeCalculationResult.gross_investment r = gross_investment res"
    and b: "FeeCalculationResult.breakdown r = breakdown res"
    and fs0: "fee_structure_applied (audit_trail r)
                = apply_enhanced_investor_adjustments fs0 idata"
    by (rule calc_breakdown_Inr_cases [OF r])
  have res: "(if is_net
      then calculate_enhanced_net_investment amt fs it
      else Inr (calculate_enhanced_gross_investment amt fs it)) = Inr res"
    using res0 unfolding fs fs0 it .
  have base: "map_of (applied_rates (breakdown res)) ''amc_base''
                = Some (amc_base_of (gross_investment res) fs it)"
    and ut: "map_of (fee_breakdown (breakdown res)) ''upfront_total''
           = Some (with_vat (gross_investment res * (upfront_fee_pct fs / 100)) (vat_frac fs)
                     (rounding_rule fs))"
    and ty: "breakdown_dict.investor_type (breakdown res) = it"
    and gi: "is_net \<Longrightarrow> gross_investment res
               = apply_rounding (amt / net_multiplier fs it) (rounding_rule fs)"
    using res net_result [of amt fs it res]
    by (auto simp: gross_amc_base gross_upfront_total gross_breakdown_type
        gross_gross_investment split: if_splits)
  show ?thesis
    unfolding g b base ut ty it_def [symmetric]
    by (auto simp: it_def amc_base_of_def gi)
qed

text \<open>
  The theorem at a net amount of 54,500 with the default structure: once with the
  investor type Retail, once without investor data.
\<close>

theorem C10_witness:
  "\<exists>r1 r2.
     calc_breakdown const_hash ''t'' 54500 True None
       (Some \<lparr>investor_data.investor_type = Some ''Retail'', classification = None,
              tier = None\<rparr>) = Inr r1
   \<and> breakdown_dict.investor_type (FeeCalculationResult.breakdown r1) = ''retail''
   \<and> calc_breakdown const_hash ''t'' 54500 True None None = Inr r2
   \<and> breakdown_dict.investor_type (FeeCalculationResult.breakdown r2) = ''professional''
   \<and> map_of (applied_rates (FeeCalculationResult.breakdown r2)) ''amc_base''
       = Some (FeeCalculationResult.gross_investment r2)"
proof -
  let ?d = "\<lparr>investor_data.investor_type = Some ''Retail'', classification = None,
              tier = None\<rparr>"
  have s: "get_enhanced_fee_structure None = Inr DEFAULT_FEE_STRUCTURE"
    by (simp add: get_enhanced_fee_structure_def)
  have a1: "apply_enhanced_investor_adjustments DEFAULT_FEE_STRUCTURE (Some ?d)
              = DEFAULT_FEE_STRUCTURE"
    and a2: "apply_enhanced_investor_adjustments DEFAULT_FEE_STRUCTURE None
              = DEFAULT_FEE_STRUCTURE"
    by (simp_all add: apply_enhanced_investor_adjustments_def)
  have l: "lower (type_field ?d) = ''retail''"
    by (simp add: type_field_def py_or_def lower_def lower_chr_def)
  have t1: "resolve_investor_type (Some ?d) = ''retail''"
    unfolding resolve_investor_type_cases using l by simp
  have t2: "resolve_investor_type None = ''professional''"
    unfolding resolve_investor_type_cases by simp
  have m1: "net_multiplier DEFAULT_FEE_STRUCTURE ''retail'' \<noteq> 0"
    and m2: "net_multiplier DEFAULT_FEE_STRUCTURE ''professional'' \<noteq> 0"
    by (simp_all add: net_multiplier_def DEFAULT_FEE_STRUCTURE_def Let_def power2_eq_square)
  obtain res1 where "calculate_enhanced_net_investment 54500 DEFAULT_FEE_STRUCTURE ''retail''
                        = Inr res1"
    using m1 net_Inr_iff by blast
  then obtain r1 where r1: "calc_breakdown const_hash ''t'' 54500 True None (Some ?d) = Inr r1"
    using calc_breakdown_net [OF s, of 54500 "Some ?d" res1] unfolding a1 t1 by blast
  obtain res2 where
    "calculate_enhanced_net_investment 54500 DEFAULT_FEE_STRUCTURE ''professional'' = Inr res2"
    using m2 net_Inr_iff by blast
  then obtain r2 where r2: "calc_breakdown const_hash ''t'' 54500 True None None = Inr r2"
    using calc_breakdown_net [OF s, of 54500 None res2] unfolding a2 t2 by blast
  show ?thesis
    using r1 r2 C10_investor_type_default [OF r1 refl refl]
      C10_investor_type_default [OF r2 refl refl] l
    by auto
qed

section \<open>Repeated calls\<close>

lemma calc_breakdown_now:
  "calc_breakdown h now2 amt is_net cdata idata
     = map_sum id
         (\<lambda>r. r\<lparr>FeeCalculationResult.timestamp := now2,
                audit_trail := (audit_trail r)\<lparr>audit_trail_dict.timestamp := now2\<rparr>\<rparr>)
         (calc_breakdown h now1 amt is_net cdata idata)"
  unfolding calc_breakdown_def Let_def
  by (cases "get_enhanced_fee_structure cdata"; cases is_net;
      simp split: sum.splits)

lemma calc_breakdown_timestamp:
  "map_sum id FeeCalculationResult.timestamp (calc_breakdown h now amt is_net cdata idata)
     = map_sum id (\<lambda>r. now) (calc_breakdown h now amt is_net cdata idata)"
  unfolding calc_breakdown_def Let_def
  by (cases "get_enhanced_fee_structure cdata"; cases is_net;
      simp split: sum.splits)

lemma calc_breakdown_hash:
  "map_sum id calc_hash (calc_breakdown h now amt is_net cdata idata)
     = map_sum id (\<lambda>r. h (amt, is_net, fee_structure_applied (audit_trail r)))
         (calc_breakdown h now amt is_net cdata idata)"
  unfolding calc_breakdown_def Let_def
  by (cases "get_enhanced_fee_structure cdata"; cases is_net;
      simp split: sum.splits)

text \<open>
  C9, as the code has it. Two calls of calc_breakdown with the same amount, direction,
  company data and investor data fail alike or return results that agree in every field
  but the two timestamps (the field timestamp and the timestamp of the audit trail),
  which hold the clock reading of each call; the audit hash is the same.
\<close>

theorem C9_identical_up_to_timestamp:
  "calc_breakdown h now2 amt is_net cdata idata
     = map_sum id
         (\<lambda>r. r\<lparr>FeeCalculationResult.timestamp := now2,
                audit_trail := (audit_trail r)\<lparr>audit_trail_dict.timestamp := now2\<rparr>\<rparr>)
         (calc_breakdown h now1 amt is_net cdata idata)
   \<and> map_sum id calc_hash (calc_breakdown h now2 amt is_net cdata idata)
       = map_sum id calc_hash (calc_breakdown h now1 amt is_net cdata idata)
   \<and> map_sum id FeeCalculationResult.timestamp
         (calc_breakdown h now1 amt is_net cdata idata)
       = map_sum id (\<lambda>r. now1) (calc_breakdown h now1 amt is_net cdata idata)"
proof (intro conjI)
  show "calc_breakdown h now2 amt is_net cdata idata
     = map_sum id
         (\<lambda>r. r\<lparr>FeeCalculationResult.timestamp := now2,
                audit_trail := (audit_trail r)\<lparr>audit_trail_dict.timestamp := now2\<rparr>\<rparr>)
         (calc_breakdown h now1 amt is_net cdata idata)"
    by (rule calc_breakdown_now)
  show "map_sum id calc_hash (calc_breakdown h now2 amt is_net cdata idata)
       = map_sum id calc_hash (calc_breakdown h now1 amt is_net cdata idata)"
    unfolding calc_breakdown_now [of h now2 amt is_net cdata idata now1]
    by (cases "calc_breakdown h now1 amt is_net cdata idata") simp_all
  show "map_sum id FeeCalculationResult.timestamp
         (calc_breakdown h now1 amt is_net cdata idata)
       = map_sum id (\<lambda>r. now1) (calc_breakdown h now1 amt is_net cdata idata)"
    by (rule calc_breakdown_timestamp)
qed

text \<open>
  C9 as stated fails: two calls with the same arguments at two clock readings return
  results that differ (in their timestamps).
\<close>

theorem C9_counterexample:
  "calc_breakdown const_hash ''2024-01-01T09:00:00'' 50000 False None None
     \<noteq> calc_breakdown const_hash ''2024-01-01T09:00:01'' 50000 False None None"
proof
  assume eq: "calc_breakdown const_hash ''2024-01-01T09:00:00'' 50000 False None None
     = calc_breakdown const_hash ''2024-01-01T09:00:01'' 50000 False None None"
  have s: "get_enhanced_fee_structure None = Inr DEFAULT_FEE_STRUCTURE"
    by (simp add: get_enhanced_fee_structure_def)
  obtain r1 where r1: "calc_breakdown const_hash ''2024-01-01T09:00:00'' 50000 False None None
        = Inr r1" "FeeCalculationResult.timestamp r1 = ''2024-01-01T09:00:00''"
    using calc_breakdown_gross [OF s] by blast
  obtain r2 where r2: "calc_breakdown const_hash ''2024-01-01T09:00:01'' 50000 False None None
        = Inr r2" "FeeCalculationResult.timestamp r2 = ''2024-01-01T09:00:01''"
    using calc_breakdown_gross [OF s] by blast
  from eq r1(1) r2(1) have "r1 = r2" by simp
  with r1(2) r2(2) show False by simp
qed

section \<open>Failures of \<open>calc_breakdown\<close>\<close>









section \<open>The ambiguity guard\<close>

text \<open>The safety check of the investor lookup, which the company lookup does not have.\<close>

lemma investor_containment_guard:
  assumes "(if CHR ''@'' \<in> set (lower (strip q)) \<and> inv_has_Contact_email sheet
            then filter (\<lambda>r. lower (Contact_email r) = lower (strip q)) (inv_rows sheet)
            else []) = []"
    and "(if inv_has_Custodian_Client_Ref sheet
          then filter (\<lambda>r. lower (strip (Custodian_Client_Ref r)) = lower (strip q))
                 (inv_rows sheet)
          else []) = []"
    and "filter (\<lambda>r. compress (Full_name r) = compress (lower (strip q))) (inv_rows sheet) = []"
    and "m = filter (\<lambda>r. str_contains (compress (Full_name r)) (compress (lower (strip q))))
               (inv_rows sheet)"
    and "1 < length m"
  shows "find_investor_row rf sheet q
           = Inl (AmbiguousInvestor q (take 5 (map Full_name m)) (5 < length m))"
  using assms unfolding find_investor_row_def Let_def by simp

text \<open>
  C2. The company lookup breaks the guard: with the companies Acme-Alpha One and
  Acme-Alpha Two and the query acme alpha, no earlier tier matches, the
  compressed-containment tier yields both rows, and \<open>find_company_row\<close> returns the
  first of them.
\<close>

theorem C2_company_containment_picks_first:
  "filter (\<lambda>r. str_contains (compress (Company_Name r)) (compress ''acme alpha''))
     (co_rows two_acmes) = [acme_one, acme_two]
   \<and> find_company_row literal_re (Some rf_dissimilar) two_acmes ''acme alpha''
       = Inr (Some acme_one)"
  by code_simp

section \<open>The fee-row lookup\<close>

lemma find_fee_row_result:
  "map_sum id snd (find_fee_row re rf sheet cust_ref subscription_code investor_full_name)
     = (if \<not> fee_has_Custodian_Client_Ref sheet then Inr None
        else case fee_candidates re sheet cust_ref investor_full_name of
               Inl e \<Rightarrow> Inl e
             | Inr df \<Rightarrow> fee_choice sheet subscription_code df)"
  unfolding find_fee_row_def fee_candidates_def fee_choice_def Let_def
  by (simp split: option.splits sum.splits list.splits)

lemma alan_fo_candidates:
  "fee_candidates re two_alans_fees ''X999'' (Some ''Alan Fo'') = Inr [fee_alan_fox]"
proof -
  have df0: "filter (\<lambda>r. lower (strip (fee_Custodian_Client_Ref r)) = lower (strip ''X999''))
               (fee_rows two_alans_fees) = []"
    by code_simp
  have d1: "filter (\<lambda>r. compress (Investor_name r) = compress (strip ''Alan Fo''))
               (fee_rows two_alans_fees) = []"
    by code_simp
  have d2: "filter (\<lambda>r. str_contains (compress (Investor_name r)) (compress (strip ''Alan Fo'')))
               (fee_rows two_alans_fees) = [fee_alan_fox]"
    by code_simp
  have h: "fee_has_Investor_name two_alans_fees" by code_simp
  have "name_fallback re (fee_rows two_alans_fees) (strip ''Alan Fo'') = Inr [fee_alan_fox]"
    unfolding name_fallback_def Let_def d1 d2 by simp
  then show ?thesis
    unfolding fee_candidates_def Let_def df0 using h by simp
qed

lemma alan_fux_candidates:
  "fee_candidates literal_re two_alans_fees ''X999'' (Some ''Alan Fux'') = Inr []"
  by code_simp

lemma two_alans_fees_choice:
  "fee_choice two_alans_fees None [fee_alan_fox] = Inr (Some fee_alan_fox)"
  "fee_choice two_alans_fees None [] = Inr None"
  "fee_has_Custodian_Client_Ref two_alans_fees"
  by code_simp+

text \<open>
  C3, as the code has it. The row the fee lookup returns does not depend on the fuzzy
  scorer, whose hit is only printed. With fee rows for Alan Fox and Alan Hickford and no
  matching client reference, the name Alan Fo returns the row of Alan Fox, through
  compressed containment (alanfo is contained in alanfox); a name that no name tier
  matches, such as Alan Fux, returns no row.
\<close>

theorem C3_fee_row_without_fuzzy:
  "map_sum id snd (find_fee_row re rf sheet cust_ref subscription_code investor_full_name)
     = map_sum id snd (find_fee_row re rf' sheet cust_ref subscription_code investor_full_name)
   \<and> map_sum id snd (find_fee_row re rf two_alans_fees ''X999'' None (Some ''Alan Fo''))
       = Inr (Some fee_alan_fox)
   \<and> map_sum id snd (find_fee_row literal_re rf two_alans_fees ''X999'' None (Some ''Alan Fux''))
       = Inr None"
  unfolding find_fee_row_result alan_fo_candidates alan_fux_candidates
  by (simp add: two_alans_fees_choice)

text \<open>
  C3 as stated fails: the lookup of Alan Fo returns the fee row of Alan Fox.
\<close>

theorem C3_counterexample:
  "map_sum id snd
     (find_fee_row literal_re (Some rf_dissimilar) two_alans_fees ''X999'' None (Some ''Alan Fo''))
   = Inr (Some fee_alan_fox)
   \<and> Investor_name fee_alan_fox = ''Alan Fox''"
  by code_simp

section \<open>Not found and ambiguous\<close>














end
